theory Spec2Isabelle
  imports Main "HOL-Library.AList"
begin

section \<open>Query escaper (\<open>Neo4jManager._format_query\<close>)\<close>

text \<open>
  Python's \<open>str.replace(old, new)\<close>: one scan from the left, replacing each
  non-overlapping occurrence of \<open>old\<close>. For an empty \<open>old\<close> Python inserts
  \<open>new\<close> before every character and at the end.
\<close>

function str_replace :: "string \<Rightarrow> string \<Rightarrow> string \<Rightarrow> string" where
  "str_replace old new [] = (if old = [] then new else [])"
| "str_replace old new (c # cs) =
     (if old = [] then new @ c # str_replace old new cs
      else if take (length old) (c # cs) = old
        then new @ str_replace old new (drop (length old) (c # cs))
      else c # str_replace old new cs)"
  by pat_completeness auto
termination
  by (relation "measure (\<lambda>(old, new, s). length s)") (auto simp: neq_Nil_conv)

text \<open>
  The list \<open>special_characters\<close> in the order of the source; \<open>CHR 0x22\<close> is the
  double quote and \<open>CHR 0x5C\<close> the backslash.
\<close>

definition special_characters :: "string list" where
  "special_characters =
     [''+'', ''-'', ''&&'', ''||'', ''!'', ''('', '')'', ''{'', ''}'', ''['', '']'', ''^'',
      [CHR 0x22], ''~'', ''*'', ''?'', '':'', [CHR 0x5C], ''/'']"

text \<open>
  \<open>for character in special_characters: query = query.replace(character, "\\" + character)\<close>
\<close>

definition format_query :: "string \<Rightarrow> string" where
  "format_query query =
     fold (\<lambda>character q. str_replace character (CHR 0x5C # character) q)
       special_characters query"

section \<open>The property graph behind the driver\<close>

text \<open>
  The manager talks to the store through Cypher statements. The store is modelled as
  the property graph those statements act on: a list of nodes (a node's identity is its
  position; nothing that is modelled here deletes) and a list of relationships.
  Property values are non-null scalars; a property map is an association list read
  with \<open>map_of\<close>.
\<close>

datatype pval = PStr string | PInt int

type_synonym props = "(string \<times> pval) list"

record stored_node =
  labels :: "string list"
  properties :: props

record stored_rel =
  start_node :: nat
  rel_type :: string
  rel_props :: props
  end_node :: nat

record graph =
  nodes :: "stored_node list"
  rels :: "stored_rel list"

definition empty_graph :: graph where
  "empty_graph = \<lparr>nodes = [], rels = []\<rparr>"

text \<open>A pattern \<open>{k1: v1, ...}\<close> matches an element whose properties hold every pair.\<close>

definition props_match :: "props \<Rightarrow> props \<Rightarrow> bool" where
  "props_match ident ps = list_all (\<lambda>k. map_of ps k = map_of ident k) (map fst ident)"

text \<open>\<open>apoc.map.merge(a, b)\<close>: the entries of both maps, those of \<open>b\<close> winning.\<close>

definition map_merge :: "props \<Rightarrow> props \<Rightarrow> props" where
  "map_merge a b = fold (\<lambda>(k, v). AList.update k v) b a"

definition node_matches :: "string list \<Rightarrow> props \<Rightarrow> stored_node \<Rightarrow> bool" where
  "node_matches ls ident n \<longleftrightarrow> set ls \<subseteq> set (labels n) \<and> props_match ident (properties n)"

text \<open>
  \<open>apoc.merge.node(labels, identProps, {}, {})\<close>, that is
  \<open>MERGE (n:labels {identProps})\<close> with nothing set on create or on match: when some
  node carries the labels and the properties the graph is left as it is, otherwise one
  node with exactly these labels and properties is created.
\<close>

definition merge_node :: "string list \<Rightarrow> props \<Rightarrow> graph \<Rightarrow> graph" where
  "merge_node ls ident g =
     (if filter (node_matches ls ident) (nodes g) = []
      then g\<lparr>nodes := nodes g @ [\<lparr>labels = remdups ls, properties = ident\<rparr>]\<rparr>
      else g)"

definition rel_matches :: "nat \<Rightarrow> string \<Rightarrow> props \<Rightarrow> nat \<Rightarrow> stored_rel \<Rightarrow> bool" where
  "rel_matches n1 t ident n2 r \<longleftrightarrow>
     start_node r = n1 \<and> end_node r = n2 \<and> rel_type r = t \<and> props_match ident (rel_props r)"

text \<open>
  \<open>apoc.merge.relationship(node1, type, identProps, {}, node2, {})\<close>, that is
  \<open>MERGE (node1)-[r:type {identProps}]->(node2)\<close>.
\<close>

definition merge_relationship :: "nat \<Rightarrow> string \<Rightarrow> props \<Rightarrow> nat \<Rightarrow> graph \<Rightarrow> graph" where
  "merge_relationship n1 t ident n2 g =
     (if filter (rel_matches n1 t ident n2) (rels g) = []
      then g\<lparr>rels := rels g @
             [\<lparr>start_node = n1, rel_type = t, rel_props = ident, end_node = n2\<rparr>]\<rparr>
      else g)"

text \<open>\<open>MATCH (n:NODE {node_id: v})\<close>: the positions of the nodes it binds.\<close>

definition match_NODE :: "pval \<Rightarrow> graph \<Rightarrow> nat list" where
  "match_NODE v g =
     filter (\<lambda>i. ''NODE'' \<in> set (labels (nodes g ! i)) \<and>
                  map_of (properties (nodes g ! i)) ''node_id'' = Some v)
       [0 ..< length (nodes g)]"

text \<open>
  \<open>apoc.periodic.iterate(items, action, {batchSize, parallel: false, iterateList: true})\<close>:
  the items are cut into batches of \<open>batchSize\<close> and the batches run one after the
  other, each applying the action to its items in order.
\<close>

function batches_of :: "nat \<Rightarrow> 'a list \<Rightarrow> 'a list list" where
  "batches_of n xs =
     (if xs = [] then [] else if n = 0 then [xs] else take n xs # batches_of n (drop n xs))"
  by pat_completeness auto
termination
  by (relation "measure (\<lambda>(n, xs). length xs)") auto

declare batches_of.simps [simp del]

definition periodic_iterate :: "('a \<Rightarrow> graph \<Rightarrow> graph) \<Rightarrow> nat \<Rightarrow> 'a list \<Rightarrow> graph \<Rightarrow> graph" where
  "periodic_iterate action batchSize items g = fold (\<lambda>batch. fold action batch) (batches_of batchSize items) g"

section \<open>Bulk writer (\<open>save_graph\<close>, \<open>create_nodes\<close>, \<open>create_edges\<close>)\<close>

text \<open>The node and edge objects handed to \<open>save_graph\<close>, with the keys the queries read.\<close>

record node_obj =
  node_type :: string
  extra_labels :: "string list"
  attributes :: props

record edge_obj =
  sourceId :: pval
  targetId :: pval
  edge_type :: string
  scopeText :: pval

record neo4j_manager =
  repo_id :: string
  entity_id :: string

definition merge_labels :: "node_obj \<Rightarrow> string list" where
  "merge_labels node = extra_labels node @ [node_type node, ''NODE'']"

definition merge_props :: "string \<Rightarrow> string \<Rightarrow> node_obj \<Rightarrow> props" where
  "merge_props repoId entityId node =
     map_merge (attributes node) [(''repoId'', PStr repoId), (''entityId'', PStr entityId)]"

definition create_nodes_txn :: "node_obj list \<Rightarrow> nat \<Rightarrow> string \<Rightarrow> string \<Rightarrow> graph \<Rightarrow> graph" where
  "create_nodes_txn nodeList batch_size repoId entityId g =
     periodic_iterate
       (\<lambda>node. merge_node (merge_labels node) (merge_props repoId entityId node))
       batch_size nodeList g"

text \<open>
  The edge statement binds \<open>node1\<close> and \<open>node2\<close> by label \<open>NODE\<close> and \<open>node_id\<close> alone and
  merges one relationship per bound pair; its parameter \<open>entityId\<close> is passed and never
  read.
\<close>

definition edge_action :: "edge_obj \<Rightarrow> graph \<Rightarrow> graph" where
  "edge_action edgeObject g =
     fold (\<lambda>(node1, node2).
             merge_relationship node1 (edge_type edgeObject)
               [(''scopeText'', scopeText edgeObject)] node2)
       (List.product (match_NODE (sourceId edgeObject) g) (match_NODE (targetId edgeObject) g))
       g"

definition create_edges_txn :: "edge_obj list \<Rightarrow> nat \<Rightarrow> string \<Rightarrow> graph \<Rightarrow> graph" where
  "create_edges_txn edgesList batch_size entityId g =
     periodic_iterate edge_action batch_size edgesList g"

definition create_nodes :: "neo4j_manager \<Rightarrow> node_obj list \<Rightarrow> graph \<Rightarrow> graph" where
  "create_nodes self nodeList g = create_nodes_txn nodeList 100 (repo_id self) (entity_id self) g"

definition create_edges :: "neo4j_manager \<Rightarrow> edge_obj list \<Rightarrow> graph \<Rightarrow> graph" where
  "create_edges self edgesList g = create_edges_txn edgesList 100 (entity_id self) g"

definition save_graph :: "neo4j_manager \<Rightarrow> node_obj list \<Rightarrow> edge_obj list \<Rightarrow> graph \<Rightarrow> graph" where
  "save_graph self nodeList edgesList g = create_edges self edgesList (create_nodes self nodeList g)"

section \<open>Retriever (\<open>get_node_by_id\<close>, \<open>search_nodes_by_text\<close>, one-hop expansion)\<close>

text \<open>
  The dataclasses \<open>NodeResult\<close> and \<open>NeighborResult\<close>. A field read from a property
  the node does not have is \<open>None\<close>. The field \<open>text\<close> is written \<open>node_text\<close>, and the
  fields of \<open>NeighborResult\<close> carry the prefix \<open>nb\<close> to keep them apart from those of
  \<open>NodeResult\<close>.
\<close>

record node_result =
  node_id :: "pval option"
  name :: "pval option"
  node_path :: "pval option"
  start_line :: "pval option"
  end_line :: "pval option"
  node_text :: "pval option"

record neighbor_result =
  nb_node_id :: "pval option"
  nb_name :: "pval option"
  nb_node_type :: "string list"
  nb_relationship_type :: string

definition get_prop :: "stored_node \<Rightarrow> string \<Rightarrow> pval option" where
  "get_prop n k = map_of (properties n) k"

definition lookup_node :: "graph \<Rightarrow> nat \<Rightarrow> stored_node list" where
  "lookup_node g i = (if i < length (nodes g) then [nodes g ! i] else [])"

text \<open>
  \<open>MATCH (p {node_id: $node_id})-[r]->(p2)\<close>: one row per relationship that leaves a
  node whose \<open>node_id\<close> is the parameter, whatever its labels and its other properties.
  A null parameter equals no property.
\<close>

definition get_1_hop_neighbors_and_relations ::
  "neo4j_manager \<Rightarrow> graph \<Rightarrow> pval option \<Rightarrow> neighbor_result list" where
  "get_1_hop_neighbors_and_relations self g nid =
     (case nid of
        None \<Rightarrow> []
      | Some v \<Rightarrow>
          concat (map (\<lambda>r.
            concat (map (\<lambda>p.
              if get_prop p ''node_id'' = Some v
              then map (\<lambda>p2. \<lparr>nb_node_id = get_prop p2 ''node_id'', nb_name = get_prop p2 ''name'',
                                nb_node_type = labels p2, nb_relationship_type = rel_type r\<rparr>)
                     (lookup_node g (end_node r))
              else [])
              (lookup_node g (start_node r))))
            (rels g)))"

text \<open>\<open>MATCH (n) WHERE n.node_id = $node_id RETURN n\<close>, then \<open>records[0]\<close>.\<close>

definition get_node_by_id ::
  "neo4j_manager \<Rightarrow> graph \<Rightarrow> string \<Rightarrow> node_result option \<times> neighbor_result list" where
  "get_node_by_id self g nid =
     (let records = filter (\<lambda>n. get_prop n ''node_id'' = Some (PStr nid)) (nodes g)
      in case records of
           [] \<Rightarrow> (None, [])
         | node_data # _ \<Rightarrow>
             (let neighbors = get_1_hop_neighbors_and_relations self g (Some (PStr nid))
              in (Some \<lparr>node_id = get_prop node_data ''node_id'', name = get_prop node_data ''name'',
                        node_path = get_prop node_data ''node_path'',
                        start_line = get_prop node_data ''start_line'',
                        end_line = get_prop node_data ''end_line'',
                        node_text = get_prop node_data ''text''\<rparr>,
                  neighbors)))"

text \<open>
  The full-text index \<open>functionNames\<close> is the store's: \<open>queryNodes q\<close> stands for the
  nodes \<open>db.index.fulltext.queryNodes("functionNames", q)\<close> yields, best score first. The
  statement keeps the rows whose \<open>repoId\<close> is the manager's; \<open>peek\<close> is the first row.
\<close>

definition run_node_query ::
  "neo4j_manager \<Rightarrow> (string \<Rightarrow> stored_node list) \<Rightarrow> string \<Rightarrow> stored_node list" where
  "run_node_query self queryNodes formatted_query =
     filter (\<lambda>node. get_prop node ''repoId'' = Some (PStr (repo_id self))) (queryNodes formatted_query)"

definition peek :: "'a list \<Rightarrow> 'a option" where
  "peek rows = (case rows of [] \<Rightarrow> None | r # _ \<Rightarrow> Some r)"

text \<open>
  \<open>search_nodes_by_text\<close>, returning beside its result the full-text queries it ran, in
  order.
\<close>

definition search_nodes_by_text_traced ::
  "neo4j_manager \<Rightarrow> (string \<Rightarrow> stored_node list) \<Rightarrow> graph \<Rightarrow> string \<Rightarrow>
     (node_result option \<times> neighbor_result list) \<times> string list" where
  "search_nodes_by_text_traced self queryNodes g query =
     (let formatted_query = format_query query;
          wildcard = ''*'' @ formatted_query @ ''*'';
          first_try = peek (run_node_query self queryNodes wildcard);
          (first_result, ran) =
            (if first_try = None
             then (peek (run_node_query self queryNodes formatted_query), [wildcard, formatted_query])
             else (first_try, [wildcard]))
      in case first_result of
           None \<Rightarrow> ((None, []), ran)
         | Some row \<Rightarrow>
             (let neighbors = get_1_hop_neighbors_and_relations self g (get_prop row ''node_id'')
              in ((Some \<lparr>node_id = get_prop row ''node_id'', name = get_prop row ''name'',
                         node_path = get_prop row ''node_path'',
                         start_line = get_prop row ''start_line'',
                         end_line = get_prop row ''end_line'',
                         node_text = get_prop row ''text''\<rparr>,
                   neighbors), ran)))"

definition search_nodes_by_text ::
  "neo4j_manager \<Rightarrow> (string \<Rightarrow> stored_node list) \<Rightarrow> graph \<Rightarrow> string \<Rightarrow>
     node_result option \<times> neighbor_result list" where
  "search_nodes_by_text self queryNodes g query =
     fst (search_nodes_by_text_traced self queryNodes g query)"

section \<open>Connector (\<open>Neo4jManager.__init__\<close>)\<close>

text \<open>
  \<open>driver attempt\<close> is what the call \<open>GraphDatabase.driver(...)\<close> of that attempt does:
  it returns a driver, raises \<open>ServiceUnavailable\<close>, or raises something else, which the
  \<open>except\<close> clause does not catch. The run is recorded as the list of driver calls,
  sleeps (in seconds) and index statements, in order.
\<close>

datatype driver_outcome = Connected | ServiceUnavailable | OtherFailure

datatype conn_error = ServiceUnavailableError | OtherError | AttributeError

datatype event =
  DriverCall nat | Sleep nat | CreateFunctionNameIndex | CreateNodeIdIndex | CreateEntityIdIndex

text \<open>
  The body of \<open>for attempt in range(retries)\<close> over the attempts still to run. The result
  \<open>Inr True\<close> is the \<open>break\<close>; \<open>Inr False\<close> is the loop running out with no driver set.
\<close>

fun connect_loop ::
  "(nat \<Rightarrow> driver_outcome) \<Rightarrow> nat \<Rightarrow> nat list \<Rightarrow> (conn_error + bool) \<times> event list" where
  "connect_loop driver retries [] = (Inr False, [])"
| "connect_loop driver retries (attempt # rest) =
     (case driver attempt of
        Connected \<Rightarrow> (Inr True, [DriverCall attempt])
      | ServiceUnavailable \<Rightarrow>
          (if attempt < retries - 1
           then (let (r, ev) = connect_loop driver retries rest
                 in (r, DriverCall attempt # Sleep (2 ^ attempt) # ev))
           else (Inl ServiceUnavailableError, [DriverCall attempt]))
      | OtherFailure \<Rightarrow> (Inl OtherError, [DriverCall attempt]))"

text \<open>
  \<open>session_run stmt\<close> is what opening a session and running that index statement does:
  \<open>None\<close> when it completes, \<open>Some e\<close> when it raises \<open>e\<close>. The three index methods run
  after the retry loop, outside its \<open>try\<close>, so what they raise leaves \<open>__init__\<close>;
  \<open>create_indexes_and_constraints\<close> calls them in order and returns what was raised, if
  anything, with the statements that were started.
\<close>

definition create_function_name_index :: "(event \<Rightarrow> conn_error option) \<Rightarrow> conn_error option" where
  "create_function_name_index session_run = session_run CreateFunctionNameIndex"

definition create_node_id_index :: "(event \<Rightarrow> conn_error option) \<Rightarrow> conn_error option" where
  "create_node_id_index session_run = session_run CreateNodeIdIndex"

definition create_entityId_index :: "(event \<Rightarrow> conn_error option) \<Rightarrow> conn_error option" where
  "create_entityId_index session_run = session_run CreateEntityIdIndex"

definition create_indexes_and_constraints ::
  "(event \<Rightarrow> conn_error option) \<Rightarrow> conn_error option \<times> event list" where
  "create_indexes_and_constraints session_run =
     (case create_function_name_index session_run of
        Some e \<Rightarrow> (Some e, [CreateFunctionNameIndex])
      | None \<Rightarrow>
          (case create_node_id_index session_run of
             Some e \<Rightarrow> (Some e, [CreateFunctionNameIndex, CreateNodeIdIndex])
           | None \<Rightarrow>
               (case create_entityId_index session_run of
                  Some e \<Rightarrow>
                    (Some e, [CreateFunctionNameIndex, CreateNodeIdIndex, CreateEntityIdIndex])
                | None \<Rightarrow>
                    (None, [CreateFunctionNameIndex, CreateNodeIdIndex, CreateEntityIdIndex]))))"

definition neo4j_manager_init ::
  "(nat \<Rightarrow> driver_outcome) \<Rightarrow> (event \<Rightarrow> conn_error option) \<Rightarrow> string option \<Rightarrow> string option \<Rightarrow>
     (conn_error + neo4j_manager) \<times> event list" where
  "neo4j_manager_init driver session_run repo entity =
     (let retries = 3;
          (r, ev) = connect_loop driver retries [0 ..< retries]
      in case r of
           Inl e \<Rightarrow> (Inl e, ev)
         | Inr has_driver \<Rightarrow>
             (if has_driver
              then (case create_indexes_and_constraints session_run of
                      (Some e, ev') \<Rightarrow> (Inl e, ev @ ev')
                    | (None, ev') \<Rightarrow>
                        (Inr \<lparr>repo_id = (case repo of None \<Rightarrow> ''default_repo'' | Some x \<Rightarrow> x),
                              entity_id = (case entity of None \<Rightarrow> ''default_user'' | Some x \<Rightarrow> x)\<rparr>,
                         ev @ ev'))
              else (Inl AttributeError, ev)))"

section \<open>Tool wrapper (\<open>GraphQueryTool\<close>)\<close>

text \<open>
  A wrapper method returns either a string or the manager's pair. Python's truth value
  of a tuple is \<open>len(t) != 0\<close>, and the manager's result is a pair, of length 2. An
  instance of the dataclass \<open>NodeResult\<close> is true and \<open>None\<close> is false. How Python prints
  \<open>code.text\<close> and the list of neighbours inside the f-string is left as the parameters
  \<open>fmt_text\<close> and \<open>fmt_neighbours\<close>; \<open>CHR 0x0A\<close> is the newline.
\<close>

datatype tool_output =
  ToolText string | ToolPair "node_result option \<times> neighbor_result list"

definition len_pair :: "'a \<times> 'b \<Rightarrow> nat" where
  "len_pair t = 2"

definition truthy_pair :: "'a \<times> 'b \<Rightarrow> bool" where
  "truthy_pair t \<longleftrightarrow> len_pair t \<noteq> 0"

definition GraphQueryTool_get_node_by_id :: "neo4j_manager \<Rightarrow> graph \<Rightarrow> string \<Rightarrow> tool_output" where
  "GraphQueryTool_get_node_by_id db_manager g query =
     (let result = get_node_by_id db_manager g query
      in if \<not> truthy_pair result then ToolText ''No code found for the given query''
         else if truthy_pair result then ToolPair result
         else ToolText ''No result found'')"

definition GraphQueryTool_search_nodes_by_text ::
  "(pval option \<Rightarrow> string) \<Rightarrow> (neighbor_result list \<Rightarrow> string) \<Rightarrow>
     neo4j_manager \<Rightarrow> (string \<Rightarrow> stored_node list) \<Rightarrow> graph \<Rightarrow> string \<Rightarrow> tool_output" where
  "GraphQueryTool_search_nodes_by_text fmt_text fmt_neighbours db_manager queryNodes g query =
     (let (code, neighbours) = search_nodes_by_text db_manager queryNodes g query
      in case code of
           None \<Rightarrow> ToolText ''No code found for the given query''
         | Some c \<Rightarrow>
             ToolText (''current node code:'' @ [CHR 0x0A] @ '' '' @ fmt_text (node_text c) @
                       '' '' @ [CHR 0x0A, CHR 0x0A] @ '' current node neighbours: '' @
                       fmt_neighbours neighbours))"

section \<open>Notions used in the statements\<close>

text \<open>The \<open>NodeResult\<close> that both read paths build from the properties of a node.\<close>

definition to_node_result :: "stored_node \<Rightarrow> node_result" where
  "to_node_result n =
     \<lparr>node_id = get_prop n ''node_id'', name = get_prop n ''name'',
      node_path = get_prop n ''node_path'', start_line = get_prop n ''start_line'',
      end_line = get_prop n ''end_line'', node_text = get_prop n ''text''\<rparr>"

text \<open>The calls of \<open>GraphDatabase.driver\<close> among the events of a run.\<close>

fun is_driver_call :: "event \<Rightarrow> bool" where
  "is_driver_call (DriverCall _) = True"
| "is_driver_call _ = False"


section \<open>Facts about the store operations\<close>


lemma concat_batches_of: "concat (batches_of n xs) = xs"
proof (induction n xs rule: batches_of.induct)
  case (1 n xs)
  show ?case
  proof (cases "xs = [] \<or> n = 0")
    case True
    then show ?thesis by (auto simp: batches_of.simps [of n xs])
  next
    case False
    with "1" have "concat (batches_of n (drop n xs)) = drop n xs" by simp
    with False show ?thesis by (simp add: batches_of.simps [of n xs])
  qed
qed

lemma fold_fold_concat: "fold (\<lambda>b. fold f b) bs g = fold f (concat bs) g"
  by (induction bs arbitrary: g) simp_all

lemma periodic_iterate_fold: "periodic_iterate f n xs g = fold f xs g"
  by (simp add: periodic_iterate_def fold_fold_concat concat_batches_of)



lemma merge_node_rels: "rels (merge_node ls ident g) = rels g"
  by (simp add: merge_node_def)

lemma merge_relationship_nodes: "nodes (merge_relationship n1 t ident n2 g) = nodes g"
  by (simp add: merge_relationship_def)

lemma match_NODE_cong: "nodes g' = nodes g \<Longrightarrow> match_NODE v g' = match_NODE v g"
  by (simp add: match_NODE_def)





lemma fold_merge_nodes:
  "nodes (fold (\<lambda>(a, b). merge_relationship a t i b) ps g) = nodes g"
  by (induction ps arbitrary: g) (auto simp: merge_relationship_nodes)




lemma edge_action_nodes: "nodes (edge_action e g) = nodes g"
  by (simp add: edge_action_def fold_merge_nodes)


lemma product_Nil_right: "List.product xs [] = []"
  by (induction xs) simp_all

lemma edge_action_skip:
  "match_NODE (sourceId e) g = [] \<or> match_NODE (targetId e) g = [] \<Longrightarrow> edge_action e g = g"
  by (auto simp: edge_action_def product_Nil_right)

lemma fold_edge_action_nodes: "nodes (fold edge_action es g) = nodes g"
  by (induction es arbitrary: g) (simp_all add: edge_action_nodes)




lemma create_nodes_fold:
  "create_nodes self ns g =
     fold (\<lambda>node. merge_node (merge_labels node) (merge_props (repo_id self) (entity_id self) node)) ns g"
  by (simp add: create_nodes_def create_nodes_txn_def periodic_iterate_fold)

lemma create_edges_fold: "create_edges self es g = fold edge_action es g"
  by (simp add: create_edges_def create_edges_txn_def periodic_iterate_fold)

lemma map_of_merge_props:
  "k \<noteq> ''repoId'' \<Longrightarrow> k \<noteq> ''entityId'' \<Longrightarrow>
   map_of (merge_props r e N) k = map_of (attributes N) k"
  by (simp add: merge_props_def map_merge_def AList.update_conv')

lemma props_match_key:
  "props_match ident ps \<Longrightarrow> map_of ident k = Some v \<Longrightarrow> map_of ps k = Some v"
proof -
  assume m: "props_match ident ps" and k: "map_of ident k = Some v"
  from k have "(k, v) \<in> set ident" by (rule map_of_SomeD)
  then have "k \<in> set (map fst ident)" by force
  with m have "map_of ps k = map_of ident k"
    by (auto simp: props_match_def list_all_iff)
  with k show ?thesis by simp
qed


lemma merge_props_tags:
  "map_of (merge_props r e N) ''repoId'' = Some (PStr r) \<and>
   map_of (merge_props r e N) ''entityId'' = Some (PStr e)"
  by (simp add: merge_props_def map_merge_def AList.update_conv')

lemma node_matches_same_partition:
  "node_matches ls (merge_props r e N) n \<Longrightarrow>
   get_prop n ''repoId'' = Some (PStr r) \<and> get_prop n ''entityId'' = Some (PStr e)"
proof -
  assume "node_matches ls (merge_props r e N) n"
  then have m: "props_match (merge_props r e N) (properties n)"
    by (simp add: node_matches_def)
  have "map_of (properties n) ''repoId'' = Some (PStr r)"
    using m by (rule props_match_key) (simp add: merge_props_tags)
  moreover have "map_of (properties n) ''entityId'' = Some (PStr e)"
    using m by (rule props_match_key) (simp add: merge_props_tags)
  ultimately show ?thesis by (simp add: get_prop_def)
qed

lemma upt_0_3: "[0 ..< 3] = [0, 1, 2]"
  by (simp add: upt_rec)

lemma find_filter_hd:
  "filter P xs = y # ys \<Longrightarrow> find P xs = Some y"
  by (induction xs) (auto split: if_splits)

lemma format_query_foo: "format_query ''foo'' = ''foo''"
  by (simp add: format_query_def special_characters_def)

lemma props_match_iff:
  "props_match ident ps \<longleftrightarrow> (\<forall>k v. map_of ident k = Some v \<longrightarrow> map_of ps k = Some v)"
proof
  assume "props_match ident ps"
  then show "\<forall>k v. map_of ident k = Some v \<longrightarrow> map_of ps k = Some v"
    by (blast intro: props_match_key)
next
  assume r: "\<forall>k v. map_of ident k = Some v \<longrightarrow> map_of ps k = Some v"
  have "map_of ps k = map_of ident k" if "k \<in> set (map fst ident)" for k
  proof -
    from that have "map_of ident k \<noteq> None" by (simp add: map_of_eq_None_iff)
    then obtain v where "map_of ident k = Some v" by blast
    with r show ?thesis by simp
  qed
  then show "props_match ident ps" by (simp add: props_match_def list_all_iff)
qed

lemma map_of_merge_props_eq:
  "map_of (merge_props r e N) =
     (map_of (attributes N))(''repoId'' \<mapsto> PStr r, ''entityId'' \<mapsto> PStr e)"
  by (simp add: merge_props_def map_merge_def AList.update_conv')





lemma create_indexes_no_driver_call:
  "filter is_driver_call (snd (create_indexes_and_constraints session_run)) = []"
  by (simp add: create_indexes_and_constraints_def split: option.split)

lemma expansion_exact:
  "get_1_hop_neighbors_and_relations self g (Some v) =
     map (\<lambda>r. \<lparr>nb_node_id = get_prop (nodes g ! end_node r) ''node_id'',
                nb_name = get_prop (nodes g ! end_node r) ''name'',
                nb_node_type = labels (nodes g ! end_node r),
                nb_relationship_type = rel_type r\<rparr>)
       (filter (\<lambda>r. start_node r < length (nodes g) \<and> end_node r < length (nodes g) \<and>
                     get_prop (nodes g ! start_node r) ''node_id'' = Some v)
          (rels g))"
proof -
  have "concat (map (\<lambda>r.
            concat (map (\<lambda>p.
              if get_prop p ''node_id'' = Some v
              then map (\<lambda>p2. \<lparr>nb_node_id = get_prop p2 ''node_id'', nb_name = get_prop p2 ''name'',
                                nb_node_type = labels p2, nb_relationship_type = rel_type r\<rparr>)
                     (lookup_node g (end_node r))
              else [])
              (lookup_node g (start_node r)))) rs) =
     map (\<lambda>r. \<lparr>nb_node_id = get_prop (nodes g ! end_node r) ''node_id'',
                nb_name = get_prop (nodes g ! end_node r) ''name'',
                nb_node_type = labels (nodes g ! end_node r),
                nb_relationship_type = rel_type r\<rparr>)
       (filter (\<lambda>r. start_node r < length (nodes g) \<and> end_node r < length (nodes g) \<and>
                     get_prop (nodes g ! start_node r) ''node_id'' = Some v) rs)" for rs
    by (induction rs) (auto simp: lookup_node_def)
  then show ?thesis by (simp add: get_1_hop_neighbors_and_relations_def)
qed

section \<open>The claims\<close>

text \<open>
  C1. The claim: on \<open>a+b*c\<close> the escaper returns \<open>a\+b\*c\<close>, one backslash before each
  special character. The code replaces one special character after the other over the
  whole string, and the backslash comes after \<open>+\<close> and \<open>*\<close> in its list, so the
  backslashes it has inserted are escaped again: the result has two backslashes before
  \<open>+\<close> and two before \<open>*\<close>, and is not the string the claim gives.
\<close>

theorem format_query_double_escapes:
  "format_query ''a+b*c'' =
     [CHR ''a'', CHR 0x5C, CHR 0x5C, CHR ''+'', CHR ''b'', CHR 0x5C, CHR 0x5C, CHR ''*'', CHR ''c'']
   \<and> format_query ''a+b*c'' \<noteq>
     [CHR ''a'', CHR 0x5C, CHR ''+'', CHR ''b'', CHR 0x5C, CHR ''*'', CHR ''c'']"
  by (simp add: format_query_def special_characters_def)

text \<open>
  C2. The claim: writing a persisted node again with the same labels and \<open>node_id\<close> but a
  changed attribute map overwrites the attributes of that node and creates no second
  node. In the code the merge key is the label list together with the whole attribute
  map, extended with \<open>repoId\<close> and \<open>entityId\<close>, and nothing is set on a match. So, as
  proved here, no write ever overwrites: when some stored node carries every label and
  every entry of the tagged map (as when the change only dropped attributes), the store
  is left as it is; otherwise (as when a value changed or an attribute was added)
  every stored node and relationship stays as it was and one node with the new labels
  and tagged map is appended.
\<close>

theorem reingest_merges_on_whole_map:
  "save_graph self [N'] [] g =
     (if \<exists>n \<in> set (nodes g).
           node_matches (merge_labels N') (merge_props (repo_id self) (entity_id self) N') n
      then g
      else g\<lparr>nodes := nodes g @
             [\<lparr>labels = remdups (merge_labels N'),
               properties = merge_props (repo_id self) (entity_id self) N'\<rparr>]\<rparr>) \<and>
   (node_matches (merge_labels N') (merge_props (repo_id self) (entity_id self) N') n \<longleftrightarrow>
      set (extra_labels N') \<union> {node_type N', ''NODE''} \<subseteq> set (labels n) \<and>
      (\<forall>k v. ((map_of (attributes N'))
                 (''repoId'' \<mapsto> PStr (repo_id self), ''entityId'' \<mapsto> PStr (entity_id self))) k = Some v
             \<longrightarrow> get_prop n k = Some v))"
proof -
  let ?L = "merge_labels N'" and ?I = "merge_props (repo_id self) (entity_id self) N'"
  have s: "save_graph self [N'] [] g = merge_node ?L ?I g"
    by (simp add: save_graph_def create_nodes_fold create_edges_fold)
  have "(filter (node_matches ?L ?I) (nodes g) = []) = (\<not> (\<exists>n \<in> set (nodes g). node_matches ?L ?I n))"
    by (simp add: filter_empty_conv)
  then have a: "save_graph self [N'] [] g =
     (if \<exists>n \<in> set (nodes g). node_matches ?L ?I n then g
      else g\<lparr>nodes := nodes g @ [\<lparr>labels = remdups ?L, properties = ?I\<rparr>]\<rparr>)"
    by (simp add: s merge_node_def)
  have b: "node_matches ?L ?I n \<longleftrightarrow>
      set (extra_labels N') \<union> {node_type N', ''NODE''} \<subseteq> set (labels n) \<and>
      (\<forall>k v. ((map_of (attributes N'))
                 (''repoId'' \<mapsto> PStr (repo_id self), ''entityId'' \<mapsto> PStr (entity_id self))) k = Some v
             \<longrightarrow> get_prop n k = Some v)"
    by (simp add: node_matches_def props_match_iff map_of_merge_props_eq merge_labels_def
        get_prop_def)
  from a b show ?thesis by (rule conjI)
qed

theorem changed_attribute_counterexample:
  "nodes (save_graph \<lparr>repo_id = ''r'', entity_id = ''e''\<rparr>
       [\<lparr>node_type = ''FUNCTION'', extra_labels = [],
         attributes = [(''node_id'', PStr ''n1''), (''name'', PStr ''g'')]\<rparr>] []
       (save_graph \<lparr>repo_id = ''r'', entity_id = ''e''\<rparr>
          [\<lparr>node_type = ''FUNCTION'', extra_labels = [],
            attributes = [(''node_id'', PStr ''n1''), (''name'', PStr ''f'')]\<rparr>] []
          empty_graph)) =
   [\<lparr>labels = [''FUNCTION'', ''NODE''],
     properties = [(''node_id'', PStr ''n1''), (''name'', PStr ''f''),
                   (''repoId'', PStr ''r''), (''entityId'', PStr ''e'')]\<rparr>,
    \<lparr>labels = [''FUNCTION'', ''NODE''],
     properties = [(''node_id'', PStr ''n1''), (''name'', PStr ''g''),
                   (''repoId'', PStr ''r''), (''entityId'', PStr ''e'')]\<rparr>]"
  by (simp add: save_graph_def create_nodes_fold create_edges_fold merge_node_def
      node_matches_def props_match_def merge_labels_def merge_props_def map_merge_def
      empty_graph_def)

theorem reingest_merges_on_whole_map_witness:
  "save_graph \<lparr>repo_id = ''r'', entity_id = ''e''\<rparr>
       [\<lparr>node_type = ''FUNCTION'', extra_labels = [],
         attributes = [(''node_id'', PStr ''n1''), (''name'', PStr ''g'')]\<rparr>] []
       \<lparr>nodes = [\<lparr>labels = [''FUNCTION'', ''NODE''],
                  properties = [(''node_id'', PStr ''n1''), (''name'', PStr ''f''),
                                (''repoId'', PStr ''r''), (''entityId'', PStr ''e'')]\<rparr>],
        rels = []\<rparr> =
   \<lparr>nodes = [\<lparr>labels = [''FUNCTION'', ''NODE''],
              properties = [(''node_id'', PStr ''n1''), (''name'', PStr ''f''),
                            (''repoId'', PStr ''r''), (''entityId'', PStr ''e'')]\<rparr>,
             \<lparr>labels = [''FUNCTION'', ''NODE''],
              properties = [(''node_id'', PStr ''n1''), (''name'', PStr ''g''),
                            (''repoId'', PStr ''r''), (''entityId'', PStr ''e'')]\<rparr>],
    rels = []\<rparr> \<and>
   save_graph \<lparr>repo_id = ''r'', entity_id = ''e''\<rparr>
       [\<lparr>node_type = ''FUNCTION'', extra_labels = [],
         attributes = [(''node_id'', PStr ''n1'')]\<rparr>] []
       \<lparr>nodes = [\<lparr>labels = [''FUNCTION'', ''NODE''],
                  properties = [(''node_id'', PStr ''n1''), (''name'', PStr ''f''),
                                (''repoId'', PStr ''r''), (''entityId'', PStr ''e'')]\<rparr>],
        rels = []\<rparr> =
   \<lparr>nodes = [\<lparr>labels = [''FUNCTION'', ''NODE''],
              properties = [(''node_id'', PStr ''n1''), (''name'', PStr ''f''),
                            (''repoId'', PStr ''r''), (''entityId'', PStr ''e'')]\<rparr>],
    rels = []\<rparr>"
  using reingest_merges_on_whole_map
    [where self = "\<lparr>repo_id = ''r'', entity_id = ''e''\<rparr>"
       and N' = "\<lparr>node_type = ''FUNCTION'', extra_labels = [],
                  attributes = [(''node_id'', PStr ''n1''), (''name'', PStr ''g'')]\<rparr>"
       and g = "\<lparr>nodes = [\<lparr>labels = [''FUNCTION'', ''NODE''],
                  properties = [(''node_id'', PStr ''n1''), (''name'', PStr ''f''),
                                (''repoId'', PStr ''r''), (''entityId'', PStr ''e'')]\<rparr>],
                 rels = []\<rparr>",
     THEN conjunct1]
    reingest_merges_on_whole_map
    [where self = "\<lparr>repo_id = ''r'', entity_id = ''e''\<rparr>"
       and N' = "\<lparr>node_type = ''FUNCTION'', extra_labels = [],
                  attributes = [(''node_id'', PStr ''n1'')]\<rparr>"
       and g = "\<lparr>nodes = [\<lparr>labels = [''FUNCTION'', ''NODE''],
                  properties = [(''node_id'', PStr ''n1''), (''name'', PStr ''f''),
                                (''repoId'', PStr ''r''), (''entityId'', PStr ''e'')]\<rparr>],
                 rels = []\<rparr>",
     THEN conjunct1]
  by (simp add: node_matches_def props_match_def merge_labels_def merge_props_def map_merge_def)

text \<open>
  C3. \<open>search_nodes_by_text\<close> first runs the full-text query on the escaped text between
  two \<open>*\<close>, keeping the rows of the manager's \<open>repoId\<close>. When that gives a row, the first
  one is the result, expanded by one hop, and no other query is run. When it gives none,
  the escaped text is queried once more without the wildcards, under the same filter;
  its first row is then the result, and with no row there either the result is
  \<open>(None, [])\<close>. The second component is the list of full-text queries run.
\<close>

theorem search_nodes_by_text_two_tier:
  "search_nodes_by_text_traced self queryNodes g query =
     (case run_node_query self queryNodes (''*'' @ format_query query @ ''*'') of
        hit # _ \<Rightarrow>
          ((Some (to_node_result hit),
            get_1_hop_neighbors_and_relations self g (get_prop hit ''node_id'')),
           [''*'' @ format_query query @ ''*''])
      | [] \<Rightarrow>
          (case run_node_query self queryNodes (format_query query) of
             hit # _ \<Rightarrow>
               ((Some (to_node_result hit),
                 get_1_hop_neighbors_and_relations self g (get_prop hit ''node_id'')),
                [''*'' @ format_query query @ ''*'', format_query query])
           | [] \<Rightarrow> ((None, []), [''*'' @ format_query query @ ''*'', format_query query]))) \<and>
   (\<forall>hit \<in> set (run_node_query self queryNodes q).
      hit \<in> set (queryNodes q) \<and> get_prop hit ''repoId'' = Some (PStr (repo_id self)))"
  by (simp add: search_nodes_by_text_traced_def peek_def to_node_result_def run_node_query_def
      Let_def split: list.split)

theorem search_nodes_by_text_two_tier_witness:
  "search_nodes_by_text_traced \<lparr>repo_id = ''r'', entity_id = ''e''\<rparr>
     (\<lambda>q. if q = ''foo''
          then [\<lparr>labels = [''FUNCTION'', ''NODE''],
                 properties = [(''node_id'', PStr ''foo''), (''repoId'', PStr ''other'')]\<rparr>,
                \<lparr>labels = [''FUNCTION'', ''NODE''],
                 properties = [(''node_id'', PStr ''foo''), (''repoId'', PStr ''r'')]\<rparr>]
          else [])
     empty_graph ''foo'' =
   ((Some \<lparr>node_id = Some (PStr ''foo''), name = None, node_path = None, start_line = None,
            end_line = None, node_text = None\<rparr>, []),
    [''*foo*'', ''foo''])"
  using search_nodes_by_text_two_tier
    [of "\<lparr>repo_id = ''r'', entity_id = ''e''\<rparr>"
        "\<lambda>q. if q = ''foo''
          then [\<lparr>labels = [''FUNCTION'', ''NODE''],
                 properties = [(''node_id'', PStr ''foo''), (''repoId'', PStr ''other'')]\<rparr>,
                \<lparr>labels = [''FUNCTION'', ''NODE''],
                 properties = [(''node_id'', PStr ''foo''), (''repoId'', PStr ''r'')]\<rparr>]
          else []"
        empty_graph "''foo''" "''foo''"]
  by (simp add: format_query_foo run_node_query_def get_prop_def to_node_result_def
      get_1_hop_neighbors_and_relations_def empty_graph_def)




text \<open>
  C5. The claim: every write of \<open>save_graph\<close> stays inside the partition of the manager,
  and an edge never attaches to a node of another partition. Nodes are tagged and
  merged inside the partition (\<open>merge_props_tags\<close>, \<open>node_matches_same_partition\<close>). The
  edge statement, however, binds its endpoints by \<open>node_id\<close> alone: with a node \<open>a\<close> of
  partition \<open>(r1, e1)\<close> in the store, the manager of \<open>(r2, e2)\<close> that writes its own
  nodes \<open>a\<close> and \<open>b\<close> and the edge from \<open>a\<close> to \<open>b\<close> creates two relationships, and the
  first leaves node 0, the node of the other partition.
\<close>

theorem edge_attaches_across_partitions:
  "rels (save_graph \<lparr>repo_id = ''r2'', entity_id = ''e2''\<rparr>
          [\<lparr>node_type = ''FUNCTION'', extra_labels = [], attributes = [(''node_id'', PStr ''a'')]\<rparr>,
           \<lparr>node_type = ''FUNCTION'', extra_labels = [], attributes = [(''node_id'', PStr ''b'')]\<rparr>]
          [\<lparr>sourceId = PStr ''a'', targetId = PStr ''b'', edge_type = ''CALLS'',
            scopeText = PStr ''s''\<rparr>]
          \<lparr>nodes = [\<lparr>labels = [''FUNCTION'', ''NODE''],
                     properties = [(''node_id'', PStr ''a''), (''repoId'', PStr ''r1''),
                                   (''entityId'', PStr ''e1'')]\<rparr>],
           rels = []\<rparr>) =
     [\<lparr>start_node = 0, rel_type = ''CALLS'', rel_props = [(''scopeText'', PStr ''s'')],
       end_node = 2\<rparr>,
      \<lparr>start_node = 1, rel_type = ''CALLS'', rel_props = [(''scopeText'', PStr ''s'')],
       end_node = 2\<rparr>]"
proof -
  let ?g0 = "\<lparr>nodes = [\<lparr>labels = [''FUNCTION'', ''NODE''],
                     properties = [(''node_id'', PStr ''a''), (''repoId'', PStr ''r1''),
                                   (''entityId'', PStr ''e1'')]\<rparr>],
           rels = []\<rparr>"
  let ?g1 = "\<lparr>nodes = [\<lparr>labels = [''FUNCTION'', ''NODE''],
                     properties = [(''node_id'', PStr ''a''), (''repoId'', PStr ''r1''),
                                   (''entityId'', PStr ''e1'')]\<rparr>,
                    \<lparr>labels = [''FUNCTION'', ''NODE''],
                     properties = [(''node_id'', PStr ''a''), (''repoId'', PStr ''r2''),
                                   (''entityId'', PStr ''e2'')]\<rparr>,
                    \<lparr>labels = [''FUNCTION'', ''NODE''],
                     properties = [(''node_id'', PStr ''b''), (''repoId'', PStr ''r2''),
                                   (''entityId'', PStr ''e2'')]\<rparr>],
           rels = []\<rparr>"
  have n: "create_nodes \<lparr>repo_id = ''r2'', entity_id = ''e2''\<rparr>
          [\<lparr>node_type = ''FUNCTION'', extra_labels = [], attributes = [(''node_id'', PStr ''a'')]\<rparr>,
           \<lparr>node_type = ''FUNCTION'', extra_labels = [], attributes = [(''node_id'', PStr ''b'')]\<rparr>]
          ?g0 = ?g1"
    by (simp add: create_nodes_fold merge_node_def node_matches_def props_match_def
        merge_labels_def merge_props_def map_merge_def)
  have s: "match_NODE (PStr ''a'') ?g1 = [0, 1]"
    by (simp add: match_NODE_def)
  have t: "match_NODE (PStr ''b'') ?g1 = [2]"
    by (simp add: match_NODE_def)
  show ?thesis
    by (simp add: save_graph_def n create_edges_fold edge_action_def s t
        merge_relationship_def rel_matches_def props_match_def)
qed

text \<open>
  C6. An edge whose source or whose target is the \<open>node_id\<close> of no stored \<open>NODE\<close> (once the
  nodes of the call are written) is skipped: the call gives the store it gives without
  that edge, whatever edges come before and after it, and written alone the edge
  changes nothing.
\<close>

theorem edge_with_absent_endpoint_is_skipped:
  assumes "match_NODE (sourceId e) (create_nodes self ns g) = [] \<or>
           match_NODE (targetId e) (create_nodes self ns g) = []"
  shows "save_graph self ns (es1 @ e # es2) g = save_graph self ns (es1 @ es2) g \<and>
         save_graph self ns [e] g = create_nodes self ns g"
proof -
  let ?g = "create_nodes self ns g"
  have skip: "edge_action e h = h" if "nodes h = nodes ?g" for h
  proof (rule edge_action_skip)
    from that have "match_NODE v h = match_NODE v ?g" for v by (rule match_NODE_cong)
    with assms show "match_NODE (sourceId e) h = [] \<or> match_NODE (targetId e) h = []" by simp
  qed
  have "edge_action e (fold edge_action es1 ?g) = fold edge_action es1 ?g"
    by (rule skip) (rule fold_edge_action_nodes)
  moreover have "edge_action e ?g = ?g" by (rule skip) simp
  ultimately show ?thesis
    by (simp add: save_graph_def create_edges_fold)
qed

theorem edge_with_absent_endpoint_witness:
  "save_graph \<lparr>repo_id = ''r'', entity_id = ''e''\<rparr>
     [\<lparr>node_type = ''FUNCTION'', extra_labels = [], attributes = [(''node_id'', PStr ''a'')]\<rparr>,
      \<lparr>node_type = ''FUNCTION'', extra_labels = [], attributes = [(''node_id'', PStr ''b'')]\<rparr>]
     ([\<lparr>sourceId = PStr ''a'', targetId = PStr ''b'', edge_type = ''CALLS'', scopeText = PStr ''s''\<rparr>] @
      \<lparr>sourceId = PStr ''a'', targetId = PStr ''zz'', edge_type = ''CALLS'', scopeText = PStr ''s''\<rparr> # [])
     empty_graph =
   save_graph \<lparr>repo_id = ''r'', entity_id = ''e''\<rparr>
     [\<lparr>node_type = ''FUNCTION'', extra_labels = [], attributes = [(''node_id'', PStr ''a'')]\<rparr>,
      \<lparr>node_type = ''FUNCTION'', extra_labels = [], attributes = [(''node_id'', PStr ''b'')]\<rparr>]
     ([\<lparr>sourceId = PStr ''a'', targetId = PStr ''b'', edge_type = ''CALLS'', scopeText = PStr ''s''\<rparr>] @ [])
     empty_graph"
proof -
  have "match_NODE (PStr ''zz'')
     (create_nodes \<lparr>repo_id = ''r'', entity_id = ''e''\<rparr>
       [\<lparr>node_type = ''FUNCTION'', extra_labels = [], attributes = [(''node_id'', PStr ''a'')]\<rparr>,
        \<lparr>node_type = ''FUNCTION'', extra_labels = [], attributes = [(''node_id'', PStr ''b'')]\<rparr>]
       empty_graph) = []"
    by (simp add: create_nodes_fold merge_node_def node_matches_def props_match_def
        merge_labels_def merge_props_def map_merge_def empty_graph_def match_NODE_def)
  then have "match_NODE (sourceId \<lparr>sourceId = PStr ''a'', targetId = PStr ''zz'', edge_type = ''CALLS'', scopeText = PStr ''s''\<rparr>)
      (create_nodes \<lparr>repo_id = ''r'', entity_id = ''e''\<rparr>
       [\<lparr>node_type = ''FUNCTION'', extra_labels = [], attributes = [(''node_id'', PStr ''a'')]\<rparr>,
        \<lparr>node_type = ''FUNCTION'', extra_labels = [], attributes = [(''node_id'', PStr ''b'')]\<rparr>]
       empty_graph) = [] \<or>
     match_NODE (targetId \<lparr>sourceId = PStr ''a'', targetId = PStr ''zz'', edge_type = ''CALLS'', scopeText = PStr ''s''\<rparr>)
      (create_nodes \<lparr>repo_id = ''r'', entity_id = ''e''\<rparr>
       [\<lparr>node_type = ''FUNCTION'', extra_labels = [], attributes = [(''node_id'', PStr ''a'')]\<rparr>,
        \<lparr>node_type = ''FUNCTION'', extra_labels = [], attributes = [(''node_id'', PStr ''b'')]\<rparr>]
       empty_graph) = []"
    by simp
  from edge_with_absent_endpoint_is_skipped [OF this] show ?thesis by (rule conjunct1)
qed

text \<open>
  C7. Opening the manager calls the driver at most three times. When all three
  attempts raise \<open>ServiceUnavailable\<close> it sleeps 1 second after the first and 2 seconds
  after the second, and raises the error after the third without sleeping and without
  touching the indexes. At the first attempt that succeeds it stops calling the driver
  and goes on to create the indexes: the run is the attempts so far followed by the
  index statements started, and it returns the manager when they all complete and
  raises what the first failing one raised otherwise. With no index statement failing
  all three are run; when the first one fails nothing more is run.
\<close>

theorem connect_retries_three_times:
  "length (filter is_driver_call (snd (neo4j_manager_init driver session_run repo entity))) \<le> 3 \<and>
   (driver 0 = ServiceUnavailable \<and> driver 1 = ServiceUnavailable \<and> driver 2 = ServiceUnavailable \<longrightarrow>
      neo4j_manager_init driver session_run repo entity =
        (Inl ServiceUnavailableError, [DriverCall 0, Sleep 1, DriverCall 1, Sleep 2, DriverCall 2])) \<and>
   (driver 0 = Connected \<or>
    driver 0 = ServiceUnavailable \<and> driver 1 = Connected \<or>
    driver 0 = ServiceUnavailable \<and> driver 1 = ServiceUnavailable \<and> driver 2 = Connected \<longrightarrow>
      fst (neo4j_manager_init driver session_run repo entity) =
        (case fst (create_indexes_and_constraints session_run) of
           None \<Rightarrow>
             Inr \<lparr>repo_id = (case repo of None \<Rightarrow> ''default_repo'' | Some x \<Rightarrow> x),
                  entity_id = (case entity of None \<Rightarrow> ''default_user'' | Some x \<Rightarrow> x)\<rparr>
         | Some e \<Rightarrow> Inl e)) \<and>
   (driver 0 = Connected \<longrightarrow>
      snd (neo4j_manager_init driver session_run repo entity) =
        [DriverCall 0] @ snd (create_indexes_and_constraints session_run)) \<and>
   (driver 0 = ServiceUnavailable \<and> driver 1 = Connected \<longrightarrow>
      snd (neo4j_manager_init driver session_run repo entity) =
        [DriverCall 0, Sleep 1, DriverCall 1] @ snd (create_indexes_and_constraints session_run)) \<and>
   (driver 0 = ServiceUnavailable \<and> driver 1 = ServiceUnavailable \<and> driver 2 = Connected \<longrightarrow>
      snd (neo4j_manager_init driver session_run repo entity) =
        [DriverCall 0, Sleep 1, DriverCall 1, Sleep 2, DriverCall 2] @
        snd (create_indexes_and_constraints session_run)) \<and>
   ((\<forall>stmt. session_run stmt = None) \<longrightarrow>
      create_indexes_and_constraints session_run =
        (None, [CreateFunctionNameIndex, CreateNodeIdIndex, CreateEntityIdIndex])) \<and>
   (session_run CreateFunctionNameIndex = Some err \<longrightarrow>
      create_indexes_and_constraints session_run = (Some err, [CreateFunctionNameIndex]))"
proof -
  obtain r ev' where ci: "create_indexes_and_constraints session_run = (r, ev')"
    by (cases "create_indexes_and_constraints session_run")
  have nd: "filter is_driver_call ev' = []"
    using create_indexes_no_driver_call [of session_run] by (simp add: ci)
  have loop: "length (filter is_driver_call (snd (neo4j_manager_init driver session_run repo entity))) \<le> 3 \<and>
   (driver 0 = ServiceUnavailable \<and> driver 1 = ServiceUnavailable \<and> driver 2 = ServiceUnavailable \<longrightarrow>
      neo4j_manager_init driver session_run repo entity =
        (Inl ServiceUnavailableError, [DriverCall 0, Sleep 1, DriverCall 1, Sleep 2, DriverCall 2])) \<and>
   (driver 0 = Connected \<or>
    driver 0 = ServiceUnavailable \<and> driver 1 = Connected \<or>
    driver 0 = ServiceUnavailable \<and> driver 1 = ServiceUnavailable \<and> driver 2 = Connected \<longrightarrow>
      fst (neo4j_manager_init driver session_run repo entity) =
        (case r of
           None \<Rightarrow>
             Inr \<lparr>repo_id = (case repo of None \<Rightarrow> ''default_repo'' | Some x \<Rightarrow> x),
                  entity_id = (case entity of None \<Rightarrow> ''default_user'' | Some x \<Rightarrow> x)\<rparr>
         | Some e \<Rightarrow> Inl e)) \<and>
   (driver 0 = Connected \<longrightarrow>
      snd (neo4j_manager_init driver session_run repo entity) = [DriverCall 0] @ ev') \<and>
   (driver 0 = ServiceUnavailable \<and> driver 1 = Connected \<longrightarrow>
      snd (neo4j_manager_init driver session_run repo entity) =
        [DriverCall 0, Sleep 1, DriverCall 1] @ ev') \<and>
   (driver 0 = ServiceUnavailable \<and> driver 1 = ServiceUnavailable \<and> driver 2 = Connected \<longrightarrow>
      snd (neo4j_manager_init driver session_run repo entity) =
        [DriverCall 0, Sleep 1, DriverCall 1, Sleep 2, DriverCall 2] @ ev')"
    by (cases "driver 0"; cases "driver 1"; cases "driver 2"; cases r)
       (simp_all add: neo4j_manager_init_def upt_0_3 ci nd)
  have ok: "(\<forall>stmt. session_run stmt = None) \<longrightarrow>
      create_indexes_and_constraints session_run =
        (None, [CreateFunctionNameIndex, CreateNodeIdIndex, CreateEntityIdIndex])"
    by (simp add: create_indexes_and_constraints_def create_function_name_index_def
        create_node_id_index_def create_entityId_index_def)
  have bad: "session_run CreateFunctionNameIndex = Some err \<longrightarrow>
      create_indexes_and_constraints session_run = (Some err, [CreateFunctionNameIndex])"
    by (simp add: create_indexes_and_constraints_def create_function_name_index_def)
  from loop ok bad show ?thesis by (simp add: ci)
qed

theorem connect_retries_witness:
  "neo4j_manager_init (\<lambda>attempt. ServiceUnavailable) (\<lambda>stmt. None) None None =
     (Inl ServiceUnavailableError, [DriverCall 0, Sleep 1, DriverCall 1, Sleep 2, DriverCall 2]) \<and>
   snd (neo4j_manager_init (\<lambda>attempt. if attempt = 1 then Connected else ServiceUnavailable)
          (\<lambda>stmt. None) (Some ''repo'') None) =
     [DriverCall 0, Sleep 1, DriverCall 1,
      CreateFunctionNameIndex, CreateNodeIdIndex, CreateEntityIdIndex] \<and>
   fst (neo4j_manager_init (\<lambda>attempt. if attempt = 1 then Connected else ServiceUnavailable)
          (\<lambda>stmt. None) (Some ''repo'') None) =
     Inr \<lparr>repo_id = ''repo'', entity_id = ''default_user''\<rparr> \<and>
   fst (neo4j_manager_init (\<lambda>attempt. Connected) (\<lambda>stmt. Some ServiceUnavailableError) None None) =
     Inl ServiceUnavailableError \<and>
   snd (neo4j_manager_init (\<lambda>attempt. Connected) (\<lambda>stmt. Some ServiceUnavailableError) None None) =
     [DriverCall 0, CreateFunctionNameIndex]"
  using connect_retries_three_times
      [of "\<lambda>attempt. ServiceUnavailable" "\<lambda>stmt. None" None None ServiceUnavailableError]
    connect_retries_three_times
      [of "\<lambda>attempt. if attempt = 1 then Connected else ServiceUnavailable" "\<lambda>stmt. None"
          "Some ''repo''" None ServiceUnavailableError]
    connect_retries_three_times
      [of "\<lambda>attempt. Connected" "\<lambda>stmt. Some ServiceUnavailableError" None None
          ServiceUnavailableError]
  by simp

text \<open>
  C8. When no stored node has the \<open>node_id\<close> asked for, \<open>get_node_by_id\<close> returns
  \<open>(None, [])\<close>.
\<close>

theorem get_node_by_id_miss:
  "\<forall>n \<in> set (nodes g). get_prop n ''node_id'' \<noteq> Some (PStr nid) \<Longrightarrow>
   get_node_by_id self g nid = (None, [])"
proof -
  assume "\<forall>n \<in> set (nodes g). get_prop n ''node_id'' \<noteq> Some (PStr nid)"
  then have "filter (\<lambda>n. get_prop n ''node_id'' = Some (PStr nid)) (nodes g) = []"
    by (simp add: filter_empty_conv)
  then show ?thesis by (simp add: get_node_by_id_def)
qed

theorem get_node_by_id_miss_witness:
  "get_node_by_id \<lparr>repo_id = ''r'', entity_id = ''e''\<rparr>
     \<lparr>nodes = [\<lparr>labels = [''FUNCTION'', ''NODE''],
                properties = [(''node_id'', PStr ''a''), (''repoId'', PStr ''r''),
                              (''entityId'', PStr ''e'')]\<rparr>],
      rels = []\<rparr> ''zz'' = (None, [])"
  by (rule get_node_by_id_miss) (simp add: get_prop_def)

text \<open>
  C9. The claim: on a miss both methods of the tool wrapper return the fixed sentence
  instead of the empty pair. \<open>search_nodes_by_text\<close> does. \<open>get_node_by_id\<close> tests the
  truth value of the pair itself, which is true for every pair, so it returns what the
  manager returned: on a miss the pair \<open>(None, [])\<close>, not the sentence.
\<close>

theorem tool_get_node_by_id_returns_raw_pair:
  "GraphQueryTool_get_node_by_id db_manager g query = ToolPair (get_node_by_id db_manager g query) \<and>
   GraphQueryTool_get_node_by_id db_manager empty_graph query = ToolPair (None, []) \<and>
   GraphQueryTool_get_node_by_id db_manager empty_graph query \<noteq>
     ToolText ''No code found for the given query'' \<and>
   GraphQueryTool_search_nodes_by_text fmt_text fmt_neighbours db_manager (\<lambda>q. []) empty_graph query =
     ToolText ''No code found for the given query''"
  by (simp add: GraphQueryTool_get_node_by_id_def truthy_pair_def len_pair_def
      get_node_by_id_def empty_graph_def GraphQueryTool_search_nodes_by_text_def
      search_nodes_by_text_def search_nodes_by_text_traced_def run_node_query_def peek_def
      Let_def)

text \<open>
  C10. \<open>get_node_by_id\<close> does not depend on the partition of the manager. When some stored
  node has the \<open>node_id\<close> asked for, in whatever partition, the result is built from the
  first such node of the store, together with the one-hop expansion for that
  \<open>node_id\<close>. The expansion is, in the order of the store, one row for each relationship
  that leaves a node with that \<open>node_id\<close>, and nothing else: neither \<open>repoId\<close> nor
  \<open>entityId\<close> nor a label is looked at.
\<close>

theorem get_node_by_id_ignores_partition:
  "get_node_by_id self g nid = get_node_by_id self' g nid \<and>
   (n \<in> set (nodes g) \<and> get_prop n ''node_id'' = Some (PStr nid) \<longrightarrow>
      (\<exists>first. find (\<lambda>n. get_prop n ''node_id'' = Some (PStr nid)) (nodes g) = Some first \<and>
         get_node_by_id self g nid =
           (Some (to_node_result first),
            get_1_hop_neighbors_and_relations self g (Some (PStr nid))))) \<and>
   get_1_hop_neighbors_and_relations self g (Some (PStr nid)) =
     map (\<lambda>r. \<lparr>nb_node_id = get_prop (nodes g ! end_node r) ''node_id'',
                nb_name = get_prop (nodes g ! end_node r) ''name'',
                nb_node_type = labels (nodes g ! end_node r),
                nb_relationship_type = rel_type r\<rparr>)
       (filter (\<lambda>r. start_node r < length (nodes g) \<and> end_node r < length (nodes g) \<and>
                     get_prop (nodes g ! start_node r) ''node_id'' = Some (PStr nid))
          (rels g))"
proof -
  have a: "get_node_by_id self g nid = get_node_by_id self' g nid"
    by (simp add: get_node_by_id_def get_1_hop_neighbors_and_relations_def Let_def
        split: list.split)
  have b: "\<exists>first. find (\<lambda>n. get_prop n ''node_id'' = Some (PStr nid)) (nodes g) = Some first \<and>
         get_node_by_id self g nid =
           (Some (to_node_result first),
            get_1_hop_neighbors_and_relations self g (Some (PStr nid)))"
    if "n \<in> set (nodes g)" and "get_prop n ''node_id'' = Some (PStr nid)"
  proof -
    from that have "filter (\<lambda>n. get_prop n ''node_id'' = Some (PStr nid)) (nodes g) \<noteq> []"
      by (auto simp: filter_empty_conv)
    then obtain y ys where f: "filter (\<lambda>n. get_prop n ''node_id'' = Some (PStr nid)) (nodes g) = y # ys"
      by (cases "filter (\<lambda>n. get_prop n ''node_id'' = Some (PStr nid)) (nodes g)") auto
    then have "find (\<lambda>n. get_prop n ''node_id'' = Some (PStr nid)) (nodes g) = Some y"
      by (rule find_filter_hd)
    moreover from f have "get_node_by_id self g nid =
        (Some (to_node_result y), get_1_hop_neighbors_and_relations self g (Some (PStr nid)))"
      by (simp add: get_node_by_id_def to_node_result_def Let_def)
    ultimately show ?thesis by blast
  qed
  note c = expansion_exact [of self g "PStr nid"]
  from a b c show ?thesis by blast
qed

theorem get_node_by_id_ignores_partition_witness:
  "get_node_by_id \<lparr>repo_id = ''r2'', entity_id = ''e2''\<rparr>
        \<lparr>nodes = [\<lparr>labels = [''FUNCTION'', ''NODE''],
                   properties = [(''node_id'', PStr ''a''), (''name'', PStr ''f1''),
                                 (''repoId'', PStr ''r1''), (''entityId'', PStr ''e1'')]\<rparr>,
                  \<lparr>labels = [''FUNCTION'', ''NODE''],
                   properties = [(''node_id'', PStr ''a''), (''name'', PStr ''f2''),
                                 (''repoId'', PStr ''r2''), (''entityId'', PStr ''e2'')]\<rparr>],
         rels = [\<lparr>start_node = 0, rel_type = ''CALLS'', rel_props = [], end_node = 1\<rparr>]\<rparr> ''a'' =
     (Some \<lparr>node_id = Some (PStr ''a''), name = Some (PStr ''f1''), node_path = None,
            start_line = None, end_line = None, node_text = None\<rparr>,
      [\<lparr>nb_node_id = Some (PStr ''a''), nb_name = Some (PStr ''f2''),
        nb_node_type = [''FUNCTION'', ''NODE''], nb_relationship_type = ''CALLS''\<rparr>])"
  using get_node_by_id_ignores_partition
    [where self = "\<lparr>repo_id = ''r2'', entity_id = ''e2''\<rparr>"
       and self' = "\<lparr>repo_id = ''r2'', entity_id = ''e2''\<rparr>"
       and g = "\<lparr>nodes = [\<lparr>labels = [''FUNCTION'', ''NODE''],
                   properties = [(''node_id'', PStr ''a''), (''name'', PStr ''f1''),
                                 (''repoId'', PStr ''r1''), (''entityId'', PStr ''e1'')]\<rparr>,
                  \<lparr>labels = [''FUNCTION'', ''NODE''],
                   properties = [(''node_id'', PStr ''a''), (''name'', PStr ''f2''),
                                 (''repoId'', PStr ''r2''), (''entityId'', PStr ''e2'')]\<rparr>],
         rels = [\<lparr>start_node = 0, rel_type = ''CALLS'', rel_props = [], end_node = 1\<rparr>]\<rparr>"
       and nid = "''a''"
       and n = "\<lparr>labels = [''FUNCTION'', ''NODE''],
                  properties = [(''node_id'', PStr ''a''), (''name'', PStr ''f2''),
                                (''repoId'', PStr ''r2''), (''entityId'', PStr ''e2'')]\<rparr>"]
  by (auto simp: get_prop_def to_node_result_def)

end
